theory Spec2Isabelle
  imports Main "HOL-Library.Multiset"
begin

section \<open>Task data access (service/data/task.py)\<close>

subsection \<open>Data model\<close>

text \<open>
  \<open>asUUID\<close> values are modelled by their canonical text form, which is what
  \<open>str(task_id)\<close> yields inside the f-string of \<open>update_task\<close>.
\<close>

type_synonym asUUID = string

text \<open>The JSON payload stored in \<open>task_data\<close> (a Python \<open>dict\<close>).\<close>

datatype json =
    JNull
  | JBool bool
  | JInt int
  | JStr string
  | JList "json list"
  | JDict "(string \<times> json) list"

type_synonym pydict = "(string \<times> json) list"

text \<open>
  Modelled from the spec: the ORM class \<open>Task\<close> (schema.orm) is not among the sources.
  Its columns are the ones the data-access functions and their tests read and write
  (\<open>id\<close>, \<open>session_id\<close>, \<open>task_order\<close>, \<open>task_data\<close>, \<open>task_status\<close>); \<open>created_at\<close>
  is the creation timestamp of the persisted record shape. The column \<open>id\<close> is named
  \<open>id'\<close> here, \<open>id\<close> being the identity function of HOL.
\<close>

record Task =
  id' :: asUUID
  session_id :: asUUID
  task_order :: int
  task_data :: pydict
  task_status :: string
  created_at :: nat

text \<open>
  The class \<open>Result\<close> (schema.result) is not among the sources; it is modelled from its
  uses. The functions build it with \<open>Result.resolve(data)\<close> and \<open>Result.reject(msg)\<close>; the tests
  unpack it into \<open>(data, error)\<close> and read \<open>error.errmsg\<close>. A rejected result is \<open>Inl\<close>.
\<close>

datatype Error = Error (errmsg: string)

type_synonym 'a Result = "Error + 'a"

definition resolve :: "'a \<Rightarrow> 'a Result" where
  "resolve data = Inr data"

definition reject :: "string \<Rightarrow> 'a Result" where
  "reject msg = Inl (Error msg)"

text \<open>
  The database session, as far as these functions see it: the rows of the task table,
  in storage order. Every function returns the session it leaves behind.
\<close>

type_synonym AsyncSession = "Task list"

subsection \<open>Queries\<close>

text \<open>The three column comparisons the functions pass to \<open>.where(...)\<close>.\<close>

datatype criterion =
    Id_eq asUUID
  | Session_id_eq asUUID
  | Task_status_eq string

fun holds :: "criterion \<Rightarrow> Task \<Rightarrow> bool" where
  "holds (Id_eq u) t = (id' t = u)"
| "holds (Session_id_eq u) t = (session_id t = u)"
| "holds (Task_status_eq s) t = (task_status t = s)"

record Query =
  whereclause :: "criterion list"
  order_by_task_order_asc :: bool

definition select_Task :: Query where
  "select_Task = \<lparr>whereclause = [], order_by_task_order_asc = False\<rparr>"

text \<open>\<open>query.where(c)\<close>: the new criterion is joined to the earlier ones by AND.\<close>

definition where' :: "Query \<Rightarrow> criterion \<Rightarrow> Query" where
  "where' q c = q\<lparr>whereclause := whereclause q @ [c]\<rparr>"

definition order_by :: "Query \<Rightarrow> Query" where
  "order_by q = q\<lparr>order_by_task_order_asc := True\<rparr>"

definition matches :: "Query \<Rightarrow> Task \<Rightarrow> bool" where
  "matches q t = list_all (\<lambda>c. holds c t) (whereclause q)"

text \<open>
  \<open>db_session.execute(query)\<close> followed by \<open>.scalars().all()\<close>. Rows with equal
  \<open>task_order\<close> come out in storage order (a stable sort); SQL leaves their order open.
\<close>

definition execute :: "AsyncSession \<Rightarrow> Query \<Rightarrow> Task list" where
  "execute db q =
     (let rows = filter (matches q) db
      in if order_by_task_order_asc q then sort_key task_order rows else rows)"

text \<open>\<open>.first()\<close>: the first row, or \<open>None\<close>.\<close>

definition first :: "'a list \<Rightarrow> 'a option" where
  "first rows = (case rows of [] \<Rightarrow> None | r # _ \<Rightarrow> Some r)"

text \<open>\<open>db_session.execute(delete(Task).where(...))\<close>: the matching rows go.\<close>

definition execute_delete :: "AsyncSession \<Rightarrow> Query \<Rightarrow> AsyncSession" where
  "execute_delete db q = filter (\<lambda>t. \<not> matches q t) db"

text \<open>
  The ORM writes a mutated row object back under its primary key.
\<close>

definition write_back :: "Task \<Rightarrow> AsyncSession \<Rightarrow> AsyncSession" where
  "write_back task db = map (\<lambda>r. if id' r = id' task then task else r) db"

subsection \<open>The functions\<close>

text \<open>
  \<open>if status:\<close> is Python truthiness: \<open>None\<close> and the empty string are both false.
\<close>

definition truthy :: "string option \<Rightarrow> bool" where
  "truthy status = (case status of None \<Rightarrow> False | Some s \<Rightarrow> s \<noteq> [])"

definition fetch_current_tasks ::
  "AsyncSession \<Rightarrow> asUUID \<Rightarrow> string option \<Rightarrow> Task list Result \<times> AsyncSession" where
  "fetch_current_tasks db_session sid status =
     (let query = order_by (where' select_Task (Session_id_eq sid));
          query = (case status of
                     Some s \<Rightarrow> if truthy status then where' query (Task_status_eq s) else query
                   | None \<Rightarrow> query);
          tasks = execute db_session query
      in (resolve tasks, db_session))"

definition update_task ::
  "AsyncSession \<Rightarrow> asUUID \<Rightarrow> string option \<Rightarrow> int option \<Rightarrow> pydict option
     \<Rightarrow> Task Result \<times> AsyncSession" where
  "update_task db_session tid status order' data =
     (let query = where' select_Task (Id_eq tid)
      in case first (execute db_session query) of
           None \<Rightarrow> (reject (''Task '' @ tid @ '' not found''), db_session)
         | Some task \<Rightarrow>
             (let task = (case status of None \<Rightarrow> task | Some s \<Rightarrow> task\<lparr>task_status := s\<rparr>);
                  task = (case order' of None \<Rightarrow> task | Some n \<Rightarrow> task\<lparr>task_order := n\<rparr>);
                  task = (case data of None \<Rightarrow> task | Some d \<Rightarrow> task\<lparr>task_data := d\<rparr>)
              in (resolve task, write_back task db_session)))"

text \<open>
  \<open>insert_task\<close>: the identifier and the creation time are filled in by the database
  on flush; they are parameters here (\<open>new_id\<close>, \<open>now\<close>).
\<close>

definition insert_task ::
  "AsyncSession \<Rightarrow> asUUID \<Rightarrow> int \<Rightarrow> pydict \<Rightarrow> string \<Rightarrow> asUUID \<Rightarrow> nat
     \<Rightarrow> asUUID Result \<times> AsyncSession" where
  "insert_task db_session sid order' data status new_id now =
     (let task = \<lparr>id' = new_id, session_id = sid, task_order = order',
                  task_data = data, task_status = status, created_at = now\<rparr>
      in (resolve (id' task), db_session @ [task]))"

text \<open>\<open>delete_task\<close> returns \<open>Result.resolve(None)\<close>; Python's \<open>None\<close> is \<open>()\<close>.\<close>

definition delete_task :: "AsyncSession \<Rightarrow> asUUID \<Rightarrow> unit Result \<times> AsyncSession" where
  "delete_task db_session tid =
     (let db' = execute_delete db_session (where' select_Task (Id_eq tid))
      in (resolve (), db'))"

section \<open>The task SOP agent (llm/agent/task_sop.py)\<close>

text \<open>
  The body of \<open>sop_agent_curd\<close> is \<open>pass\<close>. The function is given the world it could
  act on (\<open>world\<close>: the database, the log, the language-model client) and returns it with the
  value \<open>None\<close>, written \<open>()\<close>. \<open>TaskSchema\<close> (schema.session.task) is not among the
  sources and is a type parameter; \<open>max_iterations\<close> defaults to 3 at the call.
  The decorator \<open>track_process\<close> (util.generate_ids) is not among the sources either:
  the definition is the decorated body.
\<close>

definition sop_agent_curd ::
  "asUUID \<Rightarrow> asUUID \<Rightarrow> 'ts \<Rightarrow> 'ts \<Rightarrow> int \<Rightarrow> 'w \<Rightarrow> unit \<times> 'w" where
  "sop_agent_curd project_id space_id planning_task current_task max_iterations world =
     ((), world)"

section \<open>Sandbox runtime registry and lifecycle (infra/sandbox)\<close>

subsection \<open>Enumerations and records\<close>

datatype Status = Pending | Starting | Running | Stopping | Stopped | Failed

datatype SandboxError =
    ProvisionError
  | NotFoundError
  | UnregisteredBackendError
  | TimeoutError
  | TransientInfraError

text \<open>
  Modelled from the spec: \<open>SandboxInfo\<close> and \<open>ExposedUrl\<close> (infra/sandbox/lifecycle) are
  only imported by the sources. A resource info has an opaque id, the declared backend,
  the current status, the exposed-endpoint descriptors (internal port or path, external
  URL), the backend's opaque metadata and the creation timestamp of the persisted record
  shape. The backend discriminator is a type parameter.
\<close>

type_synonym ExposedUrl = "string \<times> string"

record 'b ResourceInfo =
  info_id :: string
  info_backend :: 'b
  info_status :: Status
  info_exposed :: "ExposedUrl list"
  info_metadata :: string
  info_created :: nat

subsection \<open>Registry\<close>

datatype 'b log_entry = Overwrite_warning 'b

text \<open>
  Modelled from the spec: the module \<open>runtime/registry.py\<close>, which defines
  \<open>register_runtime_backend\<close> and \<open>get_runtime_for_sandbox\<close>, is only imported by the
  sources (runtime/__init__.py). The registry maps a backend discriminator to a factory
  that builds the runtime handle of a resource; what it logs is kept beside the mapping.
\<close>

record ('b, 'h) Registry =
  factories :: "'b \<rightharpoonup> ('b ResourceInfo \<Rightarrow> 'h)"
  logged :: "'b log_entry list"

definition empty_registry :: "('b, 'h) Registry" where
  "empty_registry = \<lparr>factories = Map.empty, logged = []\<rparr>"

text \<open>
  Modelled from the spec: \<open>register(backend, factory)\<close> associates the discriminator with
  the factory; registering the same discriminator twice overwrites the prior factory,
  and the overwrite is logged.
\<close>

definition register_runtime_backend ::
  "('b, 'h) Registry \<Rightarrow> 'b \<Rightarrow> ('b ResourceInfo \<Rightarrow> 'h) \<Rightarrow> ('b, 'h) Registry" where
  "register_runtime_backend reg b factory =
     \<lparr>factories = (factories reg)(b \<mapsto> factory),
      logged = (case factories reg b of
                  None \<Rightarrow> logged reg
                | Some _ \<Rightarrow> logged reg @ [Overwrite_warning b])\<rparr>"

text \<open>
  Modelled from the spec: \<open>resolve(resourceInfo)\<close> looks up the factory for the info's
  backend and constructs the handle; it fails with \<open>UnregisteredBackendError\<close> if no
  factory is registered.
\<close>

definition get_runtime_for_sandbox ::
  "('b, 'h) Registry \<Rightarrow> 'b ResourceInfo \<Rightarrow> SandboxError + 'h" where
  "get_runtime_for_sandbox reg info =
     (case factories reg (info_backend info) of
        None \<Rightarrow> Inl UnregisteredBackendError
      | Some factory \<Rightarrow> Inr (factory info))"

subsection \<open>Lifecycle\<close>

text \<open>The persisted resource records, in storage order.\<close>

type_synonym 'b store = "'b ResourceInfo list"









subsection \<open>Paginated listing\<close>

record 'b Filter =
  by_backend :: "'b option"
  by_status :: "Status option"

definition passes :: "'b Filter \<Rightarrow> 'b ResourceInfo \<Rightarrow> bool" where
  "passes flt r =
     ((case by_backend flt of None \<Rightarrow> True | Some b \<Rightarrow> info_backend r = b) \<and>
      (case by_status flt of None \<Rightarrow> True | Some s \<Rightarrow> info_status r = s))"

text \<open>
  Modelled from the spec: the unpaginated listing, filterable by backend and status and
  ordered by creation time ascending.
\<close>

definition ordered_listing :: "'b store \<Rightarrow> 'b Filter \<Rightarrow> 'b ResourceInfo list" where
  "ordered_listing store flt = sort_key info_created (filter (passes flt) store)"

text \<open>
  Modelled from the spec: \<open>SandboxPage\<close> (only imported by the sources), an ordered,
  size-bounded slice of resource infos plus a continuation token. The token is the
  position in the ordered listing at which the next page starts; \<open>None\<close> asks for the
  first page in a request and marks the last page in a reply.
\<close>

record 'b Page =
  page_items :: "'b ResourceInfo list"
  continuation :: "nat option"

record PageRequest =
  page_token :: "nat option"
  page_size :: nat

text \<open>
  Modelled from the spec: \<open>listResources(filter, page)\<close>, a pure read that returns the
  slice of the ordered listing the request asks for.
\<close>

definition listResources :: "'b store \<Rightarrow> 'b Filter \<Rightarrow> PageRequest \<Rightarrow> 'b Page" where
  "listResources store flt req =
     (let start = (case page_token req of None \<Rightarrow> 0 | Some k \<Rightarrow> k);
          rest = drop start (ordered_listing store flt)
      in \<lparr>page_items = take (page_size req) rest,
          continuation = (if page_size req < length rest
                          then Some (start + page_size req) else None)\<rparr>)"


section \<open>Properties of the task data access\<close>

subsection \<open>Queries by primary key\<close>

lemma matches_fun: "matches q = (\<lambda>t. list_all (\<lambda>c. holds c t) (whereclause q))"
  by (rule ext) (simp add: matches_def)

lemma matches_Id_eq: "matches (where' select_Task (Id_eq tid)) t = (id' t = tid)"
  by (simp add: matches_def where'_def select_Task_def)

lemma execute_Id_eq:
  "execute db (where' select_Task (Id_eq tid)) = filter (\<lambda>t. id' t = tid) db"
proof -
  have "filter (matches (where' select_Task (Id_eq tid))) db = filter (\<lambda>t. id' t = tid) db"
    by (rule filter_cong) (simp_all add: matches_Id_eq)
  then show ?thesis
    by (simp add: execute_def where'_def select_Task_def)
qed

lemma first_filter: "first (filter P xs) = find P xs"
  by (induction xs) (simp_all add: first_def)

lemma select_by_id:
  "first (execute db (where' select_Task (Id_eq tid))) = find (\<lambda>r. id' r = tid) db"
  by (simp add: execute_Id_eq first_filter)

lemma execute_delete_Id_eq:
  "execute_delete db (where' select_Task (Id_eq tid)) = filter (\<lambda>t. id' t \<noteq> tid) db"
  unfolding execute_delete_def by (rule filter_cong) (simp_all add: matches_Id_eq)

lemma fetch_unfold:
  "fetch_current_tasks db sid st
     = (Inr (sort_key task_order
          (filter (\<lambda>t. session_id t = sid \<and> (truthy st \<longrightarrow> Some (task_status t) = st)) db)),
        db)"
  by (cases st)
     (simp_all add: fetch_current_tasks_def execute_def matches_fun where'_def order_by_def
      select_Task_def resolve_def truthy_def Let_def)

subsection \<open>update\_task\<close>

text \<open>
  C2. When a row with the given id exists (\<open>t\<close> is the one the query finds), \<open>update_task\<close>
  resolves with a task \<open>t'\<close> whose status, order and data are the arguments that are not
  \<open>None\<close> and the prior values where the argument is \<open>None\<close>; id, session id and
  creation time are those of \<open>t\<close>. In the session the row under that id becomes \<open>t'\<close>
  and every other row is as before.
\<close>

theorem update_task_frame:
  assumes "find (\<lambda>r. id' r = tid) db = Some t"
  shows "\<exists>t'. update_task db tid st ord dat
             = (Inr t', map (\<lambda>r. if id' r = tid then t' else r) db)
          \<and> task_status t' = (case st of None \<Rightarrow> task_status t | Some s \<Rightarrow> s)
          \<and> task_order t' = (case ord of None \<Rightarrow> task_order t | Some n \<Rightarrow> n)
          \<and> task_data t' = (case dat of None \<Rightarrow> task_data t | Some d \<Rightarrow> d)
          \<and> id' t' = id' t \<and> session_id t' = session_id t \<and> created_at t' = created_at t"
proof -
  from assms have tid: "id' t = tid"
    by (auto simp: find_Some_iff)
  show ?thesis
    using assms tid
    by (cases st; cases ord; cases dat)
       (simp_all add: update_task_def select_by_id resolve_def write_back_def Let_def)
qed

text \<open>
  C2, at a concrete session: only the order of task \<open>t1\<close> is given, and only it changes.
\<close>

theorem update_task_frame_witness:
  "find (\<lambda>r. id' r = ''t1'')
      [\<lparr>id' = ''t1'', session_id = ''s1'', task_order = 1, task_data = [],
        task_status = ''pending'', created_at = 0\<rparr>,
       \<lparr>id' = ''t2'', session_id = ''s1'', task_order = 2, task_data = [],
        task_status = ''running'', created_at = 1\<rparr>]
     = Some \<lparr>id' = ''t1'', session_id = ''s1'', task_order = 1, task_data = [],
        task_status = ''pending'', created_at = 0\<rparr>
   \<and> update_task
      [\<lparr>id' = ''t1'', session_id = ''s1'', task_order = 1, task_data = [],
        task_status = ''pending'', created_at = 0\<rparr>,
       \<lparr>id' = ''t2'', session_id = ''s1'', task_order = 2, task_data = [],
        task_status = ''running'', created_at = 1\<rparr>]
      ''t1'' None (Some 5) None
     = (Inr \<lparr>id' = ''t1'', session_id = ''s1'', task_order = 5, task_data = [],
        task_status = ''pending'', created_at = 0\<rparr>,
      [\<lparr>id' = ''t1'', session_id = ''s1'', task_order = 5, task_data = [],
        task_status = ''pending'', created_at = 0\<rparr>,
       \<lparr>id' = ''t2'', session_id = ''s1'', task_order = 2, task_data = [],
        task_status = ''running'', created_at = 1\<rparr>])"
  using update_task_frame [of "''t1''"
      "[\<lparr>id' = ''t1'', session_id = ''s1'', task_order = 1, task_data = [],
        task_status = ''pending'', created_at = 0\<rparr>,
       \<lparr>id' = ''t2'', session_id = ''s1'', task_order = 2, task_data = [],
        task_status = ''running'', created_at = 1\<rparr>]"
      "\<lparr>id' = ''t1'', session_id = ''s1'', task_order = 1, task_data = [],
        task_status = ''pending'', created_at = 0\<rparr>" None "Some 5" None]
  by auto

text \<open>
  C9. When no row has the given id, \<open>update_task\<close> rejects with the message
  \<open>Task <id> not found\<close> and leaves the session as it was.
\<close>

theorem update_task_not_found:
  assumes "tid \<notin> id' ` set db"
  shows "update_task db tid st ord dat = (Inl (Error (''Task '' @ tid @ '' not found'')), db)"
proof -
  from assms have "find (\<lambda>r. id' r = tid) db = None"
    by (auto simp: find_None_iff)
  then show ?thesis
    by (simp add: update_task_def select_by_id reject_def)
qed

text \<open>C9, at a concrete session: the id \<open>t9\<close> is unknown.\<close>

theorem update_task_not_found_witness:
  "''t9'' \<notin> id' ` set [\<lparr>id' = ''t1'', session_id = ''s1'', task_order = 1, task_data = [],
        task_status = ''pending'', created_at = 0\<rparr>]
   \<and> update_task [\<lparr>id' = ''t1'', session_id = ''s1'', task_order = 1, task_data = [],
        task_status = ''pending'', created_at = 0\<rparr>] ''t9'' (Some ''success'') None None
     = (Inl (Error ''Task t9 not found''),
        [\<lparr>id' = ''t1'', session_id = ''s1'', task_order = 1, task_data = [],
        task_status = ''pending'', created_at = 0\<rparr>])"
  using update_task_not_found [of "''t9''"
      "[\<lparr>id' = ''t1'', session_id = ''s1'', task_order = 1, task_data = [],
        task_status = ''pending'', created_at = 0\<rparr>]" "Some ''success''" None None]
  by simp

subsection \<open>delete\_task\<close>

text \<open>
  C3. \<open>delete_task\<close> resolves (with \<open>None\<close>) for every id; deleting the same id again
  resolves too and leaves the session of the first deletion unchanged; and for an id
  with no row the session is unchanged already by the first deletion.
\<close>

theorem delete_task_idempotent:
  "fst (delete_task db tid) = Inr ()
   \<and> delete_task (snd (delete_task db tid)) tid = (Inr (), snd (delete_task db tid))
   \<and> (tid \<notin> id' ` set db \<longrightarrow> delete_task db tid = (Inr (), db))"
proof -
  have "tid \<notin> id' ` set db \<Longrightarrow> filter (\<lambda>t. id' t \<noteq> tid) db = db"
    by (induction db) auto
  then show ?thesis
    by (simp add: delete_task_def execute_delete_Id_eq resolve_def)
qed

text \<open>C3, at a concrete session, for the unknown id \<open>t9\<close>.\<close>

theorem delete_task_idempotent_witness:
  "fst (delete_task [\<lparr>id' = ''t1'', session_id = ''s1'', task_order = 1, task_data = [],
        task_status = ''pending'', created_at = 0\<rparr>] ''t9'') = Inr ()
   \<and> ''t9'' \<notin> id' ` set [\<lparr>id' = ''t1'', session_id = ''s1'', task_order = 1, task_data = [],
        task_status = ''pending'', created_at = 0\<rparr>]
   \<and> delete_task [\<lparr>id' = ''t1'', session_id = ''s1'', task_order = 1, task_data = [],
        task_status = ''pending'', created_at = 0\<rparr>] ''t9''
      = (Inr (), [\<lparr>id' = ''t1'', session_id = ''s1'', task_order = 1, task_data = [],
        task_status = ''pending'', created_at = 0\<rparr>])"
  using delete_task_idempotent [of
      "[\<lparr>id' = ''t1'', session_id = ''s1'', task_order = 1, task_data = [],
        task_status = ''pending'', created_at = 0\<rparr>]" "''t9''"]
  by simp

subsection \<open>fetch\_current\_tasks\<close>

text \<open>
  C4, as stated, fails: the listing is not in creation order. Task \<open>t1\<close> was created
  before \<open>t2\<close> and has the larger \<open>task_order\<close>; the listing returns \<open>t2\<close> first.
\<close>

theorem fetch_current_tasks_creation_order_counterexample:
  "fetch_current_tasks
      [\<lparr>id' = ''t1'', session_id = ''s1'', task_order = 2, task_data = [],
        task_status = ''pending'', created_at = 1\<rparr>,
       \<lparr>id' = ''t2'', session_id = ''s1'', task_order = 1, task_data = [],
        task_status = ''pending'', created_at = 2\<rparr>] ''s1'' None
     = (Inr [\<lparr>id' = ''t2'', session_id = ''s1'', task_order = 1, task_data = [],
              task_status = ''pending'', created_at = 2\<rparr>,
             \<lparr>id' = ''t1'', session_id = ''s1'', task_order = 2, task_data = [],
              task_status = ''pending'', created_at = 1\<rparr>],
        [\<lparr>id' = ''t1'', session_id = ''s1'', task_order = 2, task_data = [],
          task_status = ''pending'', created_at = 1\<rparr>,
         \<lparr>id' = ''t2'', session_id = ''s1'', task_order = 1, task_data = [],
          task_status = ''pending'', created_at = 2\<rparr>])
   \<and> \<not> sorted (map created_at
         [\<lparr>id' = ''t2'', session_id = ''s1'', task_order = 1, task_data = [],
              task_status = ''pending'', created_at = 2\<rparr>,
          \<lparr>id' = ''t1'', session_id = ''s1'', task_order = 2, task_data = [],
              task_status = ''pending'', created_at = 1\<rparr>])"
  by (simp add: fetch_current_tasks_def execute_def matches_def where'_def order_by_def
      select_Task_def resolve_def)

text \<open>
  C4, amended. \<open>fetch_current_tasks\<close> is a pure read: it returns the session unchanged.
  It resolves with exactly the rows of the given session (of the given status, when the
  status is truthy), each as often as it is stored, in ascending \<open>task_order\<close>.
\<close>

theorem fetch_current_tasks_ordered:
  "\<exists>tasks. fetch_current_tasks db sid st = (Inr tasks, db)
     \<and> sorted (map task_order tasks)
     \<and> mset tasks
        = mset (filter (\<lambda>t. session_id t = sid \<and> (truthy st \<longrightarrow> Some (task_status t) = st)) db)"
  by (simp add: fetch_unfold)

text \<open>C4, amended, at a concrete session with a truthy status.\<close>

theorem fetch_current_tasks_ordered_witness:
  "fetch_current_tasks
      [\<lparr>id' = ''t1'', session_id = ''s1'', task_order = 3, task_data = [],
        task_status = ''pending'', created_at = 0\<rparr>,
       \<lparr>id' = ''t2'', session_id = ''s1'', task_order = 1, task_data = [],
        task_status = ''running'', created_at = 1\<rparr>,
       \<lparr>id' = ''t3'', session_id = ''s1'', task_order = 2, task_data = [],
        task_status = ''pending'', created_at = 2\<rparr>] ''s1'' (Some ''pending'')
     = (Inr [\<lparr>id' = ''t3'', session_id = ''s1'', task_order = 2, task_data = [],
              task_status = ''pending'', created_at = 2\<rparr>,
             \<lparr>id' = ''t1'', session_id = ''s1'', task_order = 3, task_data = [],
              task_status = ''pending'', created_at = 0\<rparr>],
      [\<lparr>id' = ''t1'', session_id = ''s1'', task_order = 3, task_data = [],
        task_status = ''pending'', created_at = 0\<rparr>,
       \<lparr>id' = ''t2'', session_id = ''s1'', task_order = 1, task_data = [],
        task_status = ''running'', created_at = 1\<rparr>,
       \<lparr>id' = ''t3'', session_id = ''s1'', task_order = 2, task_data = [],
        task_status = ''pending'', created_at = 2\<rparr>])
   \<and> truthy (Some ''pending'')"
  using fetch_current_tasks_ordered [of
      "[\<lparr>id' = ''t1'', session_id = ''s1'', task_order = 3, task_data = [],
        task_status = ''pending'', created_at = 0\<rparr>,
       \<lparr>id' = ''t2'', session_id = ''s1'', task_order = 1, task_data = [],
        task_status = ''running'', created_at = 1\<rparr>,
       \<lparr>id' = ''t3'', session_id = ''s1'', task_order = 2, task_data = [],
        task_status = ''pending'', created_at = 2\<rparr>]" "''s1''" "Some ''pending''"]
  by (simp add: fetch_current_tasks_def execute_def matches_def where'_def order_by_def
      select_Task_def resolve_def truthy_def)

text \<open>
  C10. The empty string as status behaves exactly like \<open>None\<close>: the filter on the status
  is not applied, and all rows of the session are returned in ascending \<open>task_order\<close>.
\<close>

theorem fetch_current_tasks_empty_status:
  "fetch_current_tasks db sid (Some '''') = fetch_current_tasks db sid None
   \<and> fetch_current_tasks db sid (Some '''')
       = (Inr (sort_key task_order (filter (\<lambda>t. session_id t = sid) db)), db)"
  by (simp add: fetch_current_tasks_def execute_def matches_fun where'_def order_by_def
      select_Task_def resolve_def truthy_def)

section \<open>Properties of the task SOP agent\<close>

text \<open>
  C6. \<open>sop_agent_curd\<close> is a stub: for all arguments it returns \<open>None\<close> and leaves the
  world as it was.
\<close>

theorem sop_agent_curd_stub:
  "sop_agent_curd project_id space_id planning_task current_task max_iterations world
     = ((), world)"
  by (simp add: sop_agent_curd_def)

section \<open>Properties of the sandbox registry and lifecycle\<close>

subsection \<open>Registry\<close>

text \<open>
  C1. Resolving a resource info whose backend has no registered factory fails with
  \<open>UnregisteredBackendError\<close>; no handle at all is returned.
\<close>

theorem unregistered_backend_fails:
  assumes "factories reg (info_backend info) = None"
  shows "get_runtime_for_sandbox reg info = Inl UnregisteredBackendError
         \<and> (\<forall>h. get_runtime_for_sandbox reg info \<noteq> Inr h)"
  using assms by (simp add: get_runtime_for_sandbox_def)

text \<open>
  C1, at a concrete registry: only \<open>local\<close> is registered, the resource declares
  \<open>remote\<close>.
\<close>

theorem unregistered_backend_fails_witness:
  "factories (register_runtime_backend empty_registry ''local'' info_id) ''remote'' = None
   \<and> get_runtime_for_sandbox (register_runtime_backend empty_registry ''local'' info_id)
        \<lparr>info_id = ''r1'', info_backend = ''remote'', info_status = Pending,
         info_exposed = [], info_metadata = [], info_created = 0\<rparr>
       = Inl UnregisteredBackendError"
  using unregistered_backend_fails [of
      "register_runtime_backend empty_registry ''local'' info_id"
      "\<lparr>info_id = ''r1'', info_backend = ''remote'', info_status = Pending,
         info_exposed = [], info_metadata = [], info_created = 0\<rparr>"]
  by (simp add: register_runtime_backend_def empty_registry_def)

text \<open>
  C5. After registering \<open>f1\<close> and then \<open>f2\<close> under the same discriminator \<open>b\<close>, the
  registry maps \<open>b\<close> to \<open>f2\<close>, resolving a resource of backend \<open>b\<close> builds the handle
  with \<open>f2\<close>, and the second registration has added an overwrite warning for \<open>b\<close> to
  the log.
\<close>

theorem last_registration_wins:
  "factories (register_runtime_backend (register_runtime_backend reg b f1) b f2) b = Some f2
   \<and> (info_backend info = b \<longrightarrow>
        get_runtime_for_sandbox
          (register_runtime_backend (register_runtime_backend reg b f1) b f2) info
        = Inr (f2 info))
   \<and> logged (register_runtime_backend (register_runtime_backend reg b f1) b f2)
       = logged (register_runtime_backend reg b f1) @ [Overwrite_warning b]"
  by (simp add: register_runtime_backend_def get_runtime_for_sandbox_def)

text \<open>
  C5, at a concrete registry: the factory registered first returns the id of the
  resource, the one registered second its metadata.
\<close>

theorem last_registration_wins_witness:
  "info_backend \<lparr>info_id = ''r1'', info_backend = ''local'', info_status = Pending,
         info_exposed = [], info_metadata = ''m'', info_created = 0\<rparr> = ''local''
   \<and> get_runtime_for_sandbox
        (register_runtime_backend
           (register_runtime_backend empty_registry ''local'' info_id) ''local'' info_metadata)
        \<lparr>info_id = ''r1'', info_backend = ''local'', info_status = Pending,
         info_exposed = [], info_metadata = ''m'', info_created = 0\<rparr>
       = Inr ''m''
   \<and> logged (register_runtime_backend
           (register_runtime_backend empty_registry ''local'' info_id) ''local'' info_metadata)
       = [Overwrite_warning ''local'']"
  using last_registration_wins [of empty_registry "''local''" info_id info_metadata
      "\<lparr>info_id = ''r1'', info_backend = ''local'', info_status = Pending,
         info_exposed = [], info_metadata = ''m'', info_created = 0\<rparr>"]
  by (simp add: register_runtime_backend_def empty_registry_def)

subsection \<open>Exposed endpoints\<close>



subsection \<open>Pagination\<close>


lemma page_size_bound:
  "length (page_items (listResources store flt req)) \<le> page_size req"
  by (simp add: listResources_def Let_def)




end
